theory Spec2Isabelle
  imports Main
begin

section \<open>The photobot handlers of \<^verbatim>\<open>src/main.py\<close>\<close>

text \<open>
  The program is a set of asynchronous handlers registered with a bot framework. Each
  handler is modelled as a function that returns the list of framework calls it issued,
  in order, together with either the exception that ended it or its return value.
  Strings are lists of 8-bit characters (the UTF-8 text of a Python \<^verbatim>\<open>str\<close>); every
  character the code inspects (\<^verbatim>\<open>/\<close>, \<^verbatim>\<open>&\<close>, \<^verbatim>\<open><\<close>, \<^verbatim>\<open>>\<close>, the quotes, digits, signs) is
  ASCII, and an ASCII byte never occurs inside a multi-byte UTF-8 sequence.
\<close>

subsection \<open>Exceptions and framework calls\<close>

text \<open>
  The exceptions the handlers can end with, under their Python names.
  \<open>TransportFailure\<close> stands for whatever a framework call raises (network errors, a
  rejected request, a failed write).
\<close>

datatype failure =
    Forbidden string
  | AttributeError string
  | TypeError
  | ValueError
  | IndexError
  | TransportFailure string

text \<open>\<^verbatim>\<open>error.Forbidden("Unauthorized user")\<close>, raised by \<^verbatim>\<open>check_user\<close>.\<close>

abbreviation Unauthorized :: failure where
  "Unauthorized \<equiv> Forbidden ''Unauthorized user''"

text \<open>The lookup of \<^verbatim>\<open>context.bot.wrong_method_name\<close>, an attribute the bot does not have.\<close>

abbreviation IntentionalFault :: failure where
  "IntentionalFault \<equiv> AttributeError ''wrong_method_name''"

text \<open>\<^verbatim>\<open>int(x)\<close> raises \<^verbatim>\<open>TypeError\<close> on \<^verbatim>\<open>None\<close> and \<^verbatim>\<open>ValueError\<close> on a malformed string.\<close>

definition is_conversion_error :: "failure \<Rightarrow> bool" where
  "is_conversion_error e = (e = TypeError \<or> e = ValueError)"

datatype parse_mode = HTML | MARKDOWN | MARKDOWN_V2

text \<open>The object returned by \<^verbatim>\<open>bot.get_file\<close>; its \<^verbatim>\<open>file_path\<close> is optional in the framework.\<close>

record tg_file =
  tg_file_id :: string
  file_path :: "string option"

text \<open>
  One constructor per call into the framework or the logger, with the arguments of the
  call. \<open>ReplyHtml c t\<close> is \<^verbatim>\<open>update.effective_message.reply_html(t)\<close> in chat \<open>c\<close>;
  \<open>SendMessage c t m\<close> is \<^verbatim>\<open>bot.send_message(chat_id=c, text=t, parse_mode=m)\<close>;
  \<open>DownloadToDrive f p\<close> is \<^verbatim>\<open>f.download_to_drive(p)\<close>, which fetches the bytes of \<open>f\<close> and
  writes them to the local path \<open>p\<close>.
\<close>

datatype effect =
    GetFile string
  | DownloadToDrive tg_file string
  | ReplyHtml int string
  | SendMessage "string option" string parse_mode
  | LogError string "string list"

text \<open>
  The platform behind the framework: what \<^verbatim>\<open>get_file\<close> returns for a file id, and whether
  a call that returns nothing fails.
\<close>

record transport =
  get_file :: "string \<Rightarrow> failure + tg_file"
  outcome :: "effect \<Rightarrow> failure option"

type_synonym 'a action = "effect list \<times> (failure + 'a)"

definition return_ok :: "'a \<Rightarrow> 'a action" where
  "return_ok x = ([], Inr x)"

definition raise :: "failure \<Rightarrow> 'a action" where
  "raise e = ([], Inl e)"

text \<open>Sequencing of two statements: an exception in the first skips the second.\<close>

definition and_then :: "'a action \<Rightarrow> ('a \<Rightarrow> 'b action) \<Rightarrow> 'b action" where
  "and_then m f =
     (case m of
        (es, Inl e) \<Rightarrow> (es, Inl e)
      | (es, Inr x) \<Rightarrow> (case f x of (es', r) \<Rightarrow> (es @ es', r)))"

definition call :: "transport \<Rightarrow> effect \<Rightarrow> unit action" where
  "call w e = ([e], case outcome w e of None \<Rightarrow> Inr () | Some x \<Rightarrow> Inl x)"

definition bot_get_file :: "transport \<Rightarrow> string \<Rightarrow> tg_file action" where
  "bot_get_file w fid = ([GetFile fid], get_file w fid)"

text \<open>\<^verbatim>\<open>logger.error\<close> writes to the log and returns.\<close>

definition logger_error :: "string \<Rightarrow> string list \<Rightarrow> unit action" where
  "logger_error msg exc = ([LogError msg exc], Inr ())"

subsection \<open>Python built-ins the handlers use\<close>

text \<open>\<^verbatim>\<open>xs[-1]\<close>: the last element, \<^verbatim>\<open>IndexError\<close> on an empty sequence.\<close>

definition py_last :: "'a list \<Rightarrow> 'a action" where
  "py_last xs = (case xs of [] \<Rightarrow> raise IndexError | _ # _ \<Rightarrow> return_ok (last xs))"

text \<open>\<^verbatim>\<open>s.split(c)\<close> for a one-character separator: never empty, one more piece than separators.\<close>

fun split_on :: "char \<Rightarrow> string \<Rightarrow> string list" where
  "split_on c [] = [[]]"
| "split_on c (x # xs) =
     (if x = c then [] # split_on c xs
      else (case split_on c xs of [] \<Rightarrow> [[x]] | p # ps \<Rightarrow> (x # p) # ps))"

text \<open>\<^verbatim>\<open>s.replace(c, r)\<close> for a one-character \<open>c\<close>.\<close>

fun py_replace :: "char \<Rightarrow> string \<Rightarrow> string \<Rightarrow> string" where
  "py_replace c r [] = []"
| "py_replace c r (x # xs) = (if x = c then r @ py_replace c r xs else x # py_replace c r xs)"

text \<open>
  \<^verbatim>\<open>html.escape(s)\<close> of the standard library, with its default \<^verbatim>\<open>quote=True\<close>: five
  replacements in this order, the ampersand first.
\<close>

definition html_escape :: "string \<Rightarrow> string" where
  "html_escape s =
     py_replace (CHR 0x27) ''&#x27;''
       (py_replace (CHR 0x22) ''&quot;''
         (py_replace CHR ''>'' ''&gt;''
           (py_replace CHR ''<'' ''&lt;''
             (py_replace CHR ''&'' ''&amp;'' s))))"

text \<open>\<^verbatim>\<open>sub in s\<close> on strings.\<close>

fun starts_with :: "string \<Rightarrow> string \<Rightarrow> bool" where
  "starts_with [] s = True"
| "starts_with (p # ps) [] = False"
| "starts_with (p # ps) (x # xs) = (p = x \<and> starts_with ps xs)"

fun py_in :: "string \<Rightarrow> string \<Rightarrow> bool" where
  "py_in sub [] = (sub = [])"
| "py_in sub (x # xs) = (starts_with sub (x # xs) \<or> py_in sub xs)"

text \<open>\<^verbatim>\<open>str(n)\<close> for an integer: decimal digits, a minus sign when negative.\<close>

definition digit_char :: "nat \<Rightarrow> char" where
  "digit_char d = ''0123456789'' ! (d mod 10)"

function str_nat :: "nat \<Rightarrow> string" where
  "str_nat n = (if n < 10 then [digit_char n] else str_nat (n div 10) @ [digit_char (n mod 10)])"
  by pat_completeness auto
termination
  by (relation "measure id") auto

declare str_nat.simps [simp del]

definition py_str :: "int \<Rightarrow> string" where
  "py_str i = (if i < 0 then CHR ''-'' # str_nat (nat (- i)) else str_nat (nat i))"

text \<open>
  \<^verbatim>\<open>int(s)\<close> for a string of ASCII characters: the six ASCII whitespace characters (space,
  \<^verbatim>\<open>\t\<close>, \<^verbatim>\<open>\n\<close>, \<^verbatim>\<open>\v\<close>, \<^verbatim>\<open>\f\<close>, \<^verbatim>\<open>\r\<close>) are stripped from both ends, one sign is allowed,
  then decimal digits with single underscores between digits; anything else is a
  \<^verbatim>\<open>ValueError\<close> (\<open>None\<close>).

  Two things \<^verbatim>\<open>int\<close> does are outside this definition: in a string with non-ASCII
  characters it also reads Unicode whitespace and Unicode decimal digits, and it refuses a
  literal whose number of digits exceeds a limit of the interpreter, which can be set to
  4300 (the default), to any value from 640 up, or off. \<open>in_scope\<close> below holds of the
  strings on which the definition and \<^verbatim>\<open>int\<close> agree whatever that setting is: ASCII, and at
  most 640 characters long. Every property that depends on the reading of the configured
  identity assumes it.
\<close>

definition is_space :: "char \<Rightarrow> bool" where
  "is_space c = (c \<in> set [CHR 0x20, CHR 0x09, CHR 0x0A, CHR 0x0B, CHR 0x0C, CHR 0x0D])"

definition strip :: "string \<Rightarrow> string" where
  "strip s = rev (dropWhile is_space (rev (dropWhile is_space s)))"

definition digit_of :: "char \<Rightarrow> nat option" where
  "digit_of c = map_of (zip ''0123456789'' [0, 1, 2, 3, 4, 5, 6, 7, 8, 9]) c"

text \<open>The digits after the first one, \<open>acc\<close> being the value read so far.\<close>

fun more_digits :: "nat \<Rightarrow> string \<Rightarrow> nat option" where
  "more_digits acc [] = Some acc"
| "more_digits acc [c] =
     (case digit_of c of None \<Rightarrow> None | Some d \<Rightarrow> Some (acc * 10 + d))"
| "more_digits acc (c # d # ds) =
     (if c = CHR ''_'' then
        (case digit_of d of None \<Rightarrow> None | Some v \<Rightarrow> more_digits (acc * 10 + v) ds)
      else
        (case digit_of c of None \<Rightarrow> None | Some v \<Rightarrow> more_digits (acc * 10 + v) (d # ds)))"

definition unsigned :: "string \<Rightarrow> nat option" where
  "unsigned s =
     (case s of
        [] \<Rightarrow> None
      | c # cs \<Rightarrow> (case digit_of c of None \<Rightarrow> None | Some d \<Rightarrow> more_digits d cs))"

definition py_int :: "string \<Rightarrow> int option" where
  "py_int s =
     (case strip s of
        [] \<Rightarrow> None
      | c # cs \<Rightarrow>
          if c = CHR ''-'' then map_option (\<lambda>n. - int n) (unsigned cs)
          else if c = CHR ''+'' then map_option int (unsigned cs)
          else map_option int (unsigned (c # cs)))"

definition is_ascii :: "char \<Rightarrow> bool" where
  "is_ascii c = (\<not> digit7 c)"

definition in_scope :: "string \<Rightarrow> bool" where
  "in_scope s = (list_all is_ascii s \<and> length s \<le> 640)"

subsection \<open>Configuration and updates\<close>

text \<open>The two module-level values read with \<^verbatim>\<open>os.getenv\<close>: \<open>None\<close> when the variable is unset.\<close>

record config =
  DEVELOPER_CHAT_ID :: "string option"
  BOT_TOKEN :: "string option"

record attachment =
  file_id :: string

text \<open>
  The configured value is unset, or a string on which \<open>py_int\<close> is \<^verbatim>\<open>int\<close>.
\<close>

definition modelled_config :: "config \<Rightarrow> bool" where
  "modelled_config cfg = (case DEVELOPER_CHAT_ID cfg of None \<Rightarrow> True | Some s \<Rightarrow> in_scope s)"

text \<open>
  What the handlers read of a message: the id of its chat, its photo size variants in the
  platform's order, and its video.
\<close>

record msg =
  chat :: int
  photo :: "attachment list"
  video :: "attachment option"

text \<open>
  An update that reaches a handler carries one message, in one of four fields of the
  update: a new message, an edited message, a channel post or an edited channel post. The
  message filters \<^verbatim>\<open>filters.PHOTO\<close> and \<^verbatim>\<open>filters.VIDEO\<close> look at that message whichever field
  it is in, and \<^verbatim>\<open>update.effective_message\<close> and \<^verbatim>\<open>update.effective_chat\<close> are that message and
  its chat; \<^verbatim>\<open>update.message\<close> is the message only when it is a new one, and \<^verbatim>\<open>None\<close>
  otherwise.
\<close>

datatype update_kind = NewMessage | EditedMessage | ChannelPost | EditedChannelPost

record update =
  kind :: update_kind
  effective_message :: msg

definition message :: "update \<Rightarrow> msg option" where
  "message u = (if kind u = NewMessage then Some (effective_message u) else None)"

text \<open>\<^verbatim>\<open>update.effective_chat.id\<close>.\<close>

definition chat_id :: "update \<Rightarrow> int" where
  "chat_id u = chat (effective_message u)"

subsection \<open>The handlers\<close>

definition check_user :: "config \<Rightarrow> update \<Rightarrow> unit action" where
  "check_user cfg u =
     (case DEVELOPER_CHAT_ID cfg of
        None \<Rightarrow> raise TypeError
      | Some s \<Rightarrow>
          (case py_int s of
             None \<Rightarrow> raise ValueError
           | Some a \<Rightarrow> if \<not> (chat_id u = a) then raise Unauthorized else return_ok ()))"

definition reply_html :: "transport \<Rightarrow> update \<Rightarrow> string \<Rightarrow> unit action" where
  "reply_html w u t = call w (ReplyHtml (chat_id u) t)"

definition download_file :: "transport \<Rightarrow> string \<Rightarrow> unit action" where
  "download_file w fid =
     and_then (bot_get_file w fid) (\<lambda>new_file.
     and_then (case file_path new_file of
                 None \<Rightarrow> raise (AttributeError ''split'')
               | Some p \<Rightarrow> py_last (split_on CHR ''/'' p)) (\<lambda>filename.
     call w (DownloadToDrive new_file (''/files/'' @ filename))))"

definition bad_command :: "config \<Rightarrow> transport \<Rightarrow> update \<Rightarrow> unit action" where
  "bad_command cfg w u = raise IntentionalFault"

definition usage_text :: "update \<Rightarrow> string" where
  "usage_text u =
     ''Use /bad_command to cause an error.'' @ [CHR 0x0A] @
     ''Your chat id is <code>'' @ py_str (chat_id u) @ ''</code>.''"

definition start :: "config \<Rightarrow> transport \<Rightarrow> update \<Rightarrow> unit action" where
  "start cfg w u =
     and_then (check_user cfg u) (\<lambda>_. reply_html w u (usage_text u))"

text \<open>
  In \<^verbatim>\<open>image\<close> and \<^verbatim>\<open>video\<close> the attribute read on \<^verbatim>\<open>update.message\<close> raises
  \<^verbatim>\<open>AttributeError\<close> when that is \<^verbatim>\<open>None\<close>.
\<close>

definition image :: "config \<Rightarrow> transport \<Rightarrow> update \<Rightarrow> unit action" where
  "image cfg w u =
     and_then (check_user cfg u) (\<lambda>_.
     and_then (case message u of
                 None \<Rightarrow> raise (AttributeError ''photo'')
               | Some m \<Rightarrow> py_last (photo m)) (\<lambda>p.
     and_then (download_file w (file_id p)) (\<lambda>_.
     reply_html w u ''Downloaded image'')))"

definition video_handler :: "config \<Rightarrow> transport \<Rightarrow> update \<Rightarrow> unit action" where
  "video_handler cfg w u =
     and_then (check_user cfg u) (\<lambda>_.
     and_then (case message u of
                 None \<Rightarrow> raise (AttributeError ''video'')
               | Some m \<Rightarrow>
                   (case video m of
                      None \<Rightarrow> raise (AttributeError ''file_id'')
                    | Some v \<Rightarrow> return_ok (file_id v))) (\<lambda>fid.
     and_then (download_file w fid) (\<lambda>_.
     and_then (reply_html w u (usage_text u)) (\<lambda>_.
     reply_html w u ''Downloaded video''))))"

text \<open>
  The handlers \<^verbatim>\<open>main\<close> registers: two commands and two message filters.
\<close>

datatype event = StartCommand | BadCommand | PhotoMessage | VideoMessage

fun handler :: "event \<Rightarrow> config \<Rightarrow> transport \<Rightarrow> update \<Rightarrow> unit action" where
  "handler StartCommand = start"
| "handler BadCommand = bad_command"
| "handler PhotoMessage = image"
| "handler VideoMessage = video_handler"

subsection \<open>The error handler\<close>

text \<open>
  What \<^verbatim>\<open>error_handler\<close> is given, as the text the library calls return:
  \<open>update_dump\<close> is \<^verbatim>\<open>json.dumps(update_str, indent=2, ensure_ascii=False)\<close> (of
  \<^verbatim>\<open>update.to_dict()\<close> for an update, of \<^verbatim>\<open>str(update)\<close> otherwise), \<open>chat_data_str\<close> and
  \<open>user_data_str\<close> are \<^verbatim>\<open>str(context.chat_data)\<close> and \<^verbatim>\<open>str(context.user_data)\<close>, and
  \<open>tb_list\<close> is \<^verbatim>\<open>traceback.format_exception(None, context.error, ...)\<close>.
\<close>

record report =
  update_dump :: string
  chat_data_str :: string
  user_data_str :: string
  tb_list :: "string list"

definition tb_string :: "report \<Rightarrow> string" where
  "tb_string r = concat (tb_list r)"

definition error_message :: "report \<Rightarrow> string" where
  "error_message r =
     ''An exception was raised while handling an update'' @ [CHR 0x0A] @
     ''<pre>update = '' @ html_escape (update_dump r) @
     ''</pre>'' @ [CHR 0x0A, CHR 0x0A] @
     ''<pre>context.chat_data = '' @ html_escape (chat_data_str r) @ ''</pre>'' @ [CHR 0x0A, CHR 0x0A] @
     ''<pre>context.user_data = '' @ html_escape (user_data_str r) @ ''</pre>'' @ [CHR 0x0A, CHR 0x0A] @
     ''<pre>'' @ html_escape (tb_string r) @ ''</pre>''"

definition error_handler :: "config \<Rightarrow> transport \<Rightarrow> report \<Rightarrow> unit action" where
  "error_handler cfg w r =
     and_then (logger_error ''Exception while handling an update:'' (tb_list r)) (\<lambda>_.
     call w (SendMessage (DEVELOPER_CHAT_ID cfg) (error_message r) HTML))"

subsection \<open>The error handler on the state that outlives a run\<close>

text \<open>
  What persists from one run of a handler to the next, and what a handler can therefore
  read and write: the module-level variables, the dictionaries the framework keeps for each
  chat and each user and hands to a handler as \<^verbatim>\<open>context.chat_data\<close> and
  \<^verbatim>\<open>context.user_data\<close>, and the log entries written and calls issued so far. \<open>'d\<close> is the
  type of such a dictionary.
\<close>

record 'd store =
  module_vars :: config
  chat_data :: "int \<Rightarrow> 'd"
  user_data :: "int \<Rightarrow> 'd"
  issued :: "effect list"

text \<open>
  One failure as the framework hands it to the error handler: the dumped update, the chat
  and the user the context belongs to (\<open>None\<close> when the update has none, and then the
  context's dictionary is \<^verbatim>\<open>None\<close>), and the formatted traceback of \<^verbatim>\<open>context.error\<close>.
\<close>

record failure_event =
  failed_update_dump :: string
  failed_chat :: "int option"
  failed_user :: "int option"
  failed_tb :: "string list"

text \<open>\<^verbatim>\<open>str(context.chat_data)\<close>, with \<open>str_of\<close> the text of a dictionary.\<close>

definition context_data_str :: "('d \<Rightarrow> string) \<Rightarrow> (int \<Rightarrow> 'd) \<Rightarrow> int option \<Rightarrow> string" where
  "context_data_str str_of table k = (case k of None \<Rightarrow> ''None'' | Some i \<Rightarrow> str_of (table i))"

definition run_logger_error :: "string \<Rightarrow> string list \<Rightarrow> 'd store \<Rightarrow> 'd store" where
  "run_logger_error m exc st = st\<lparr>issued := issued st @ [LogError m exc]\<rparr>"

definition run_call :: "transport \<Rightarrow> effect \<Rightarrow> 'd store \<Rightarrow> 'd store \<times> (failure + unit)" where
  "run_call w e st =
     (st\<lparr>issued := issued st @ [e]\<rparr>, case outcome w e of None \<Rightarrow> Inr () | Some x \<Rightarrow> Inl x)"

text \<open>
  The statements of \<^verbatim>\<open>error_handler\<close> in their order, each on the state the one before left:
  the log entry, the reads of the context, the message, the send.
\<close>

definition error_handler_run ::
  "('d \<Rightarrow> string) \<Rightarrow> transport \<Rightarrow> failure_event \<Rightarrow> 'd store \<Rightarrow> 'd store \<times> (failure + unit)" where
  "error_handler_run str_of w ev st =
     (let st1 = run_logger_error ''Exception while handling an update:'' (failed_tb ev) st;
          m = error_message
                \<lparr>update_dump = failed_update_dump ev,
                 chat_data_str = context_data_str str_of (chat_data st1) (failed_chat ev),
                 user_data_str = context_data_str str_of (user_data st1) (failed_user ev),
                 tb_list = failed_tb ev\<rparr>
      in run_call w (SendMessage (DEVELOPER_CHAT_ID (module_vars st1)) m HTML) st1)"

subsection \<open>Notions the properties are stated with\<close>

text \<open>The chat id the guard compares with: \<^verbatim>\<open>int(DEVELOPER_CHAT_ID)\<close>, when that has a value.\<close>

definition authorized_identity :: "config \<Rightarrow> int option" where
  "authorized_identity cfg = (case DEVELOPER_CHAT_ID cfg of None \<Rightarrow> None | Some s \<Rightarrow> py_int s)"

text \<open>The file ids a run asked the platform for, and the chat messages it sent, in order.\<close>

fun get_file_calls :: "effect list \<Rightarrow> string list" where
  "get_file_calls [] = []"
| "get_file_calls (GetFile fid # es) = fid # get_file_calls es"
| "get_file_calls (e # es) = get_file_calls es"

fun messages :: "effect list \<Rightarrow> effect list" where
  "messages [] = []"
| "messages (ReplyHtml c t # es) = ReplyHtml c t # messages es"
| "messages (SendMessage c t m # es) = SendMessage c t m # messages es"
| "messages (e # es) = messages es"

text \<open>
  The final path segment in the words of the specification: what follows the last slash
  (the whole path when it has none).
\<close>

definition final_segment :: "string \<Rightarrow> string" where
  "final_segment p = rev (takeWhile (\<lambda>c. c \<noteq> CHR ''/'') (rev p))"

text \<open>A section of the report: a body between the two tags.\<close>

definition pre_block :: "string \<Rightarrow> string" where
  "pre_block body = ''<pre>'' @ body @ ''</pre>''"

definition is_angle :: "char \<Rightarrow> bool" where
  "is_angle c = (c = CHR ''<'' \<or> c = CHR ''>'')"

subsection \<open>Example inputs\<close>

definition example_config :: config where
  "example_config = \<lparr>DEVELOPER_CHAT_ID = Some ''42'', BOT_TOKEN = Some ''token''\<rparr>"

text \<open>A platform where every call succeeds and each file lies under \<^verbatim>\<open>abc/def/\<close>.\<close>

definition example_transport :: transport where
  "example_transport =
     \<lparr>get_file = (\<lambda>fid. Inr \<lparr>tg_file_id = fid, file_path = Some (''abc/def/'' @ fid @ ''.jpg'')\<rparr>),
      outcome = (\<lambda>_. None)\<rparr>"

text \<open>A new message from chat \<open>c\<close> with three photo sizes and a video.\<close>

definition example_update :: "int \<Rightarrow> update" where
  "example_update c =
     \<lparr>kind = NewMessage,
      effective_message =
        \<lparr>chat = c,
         photo = [\<lparr>file_id = ''small''\<rparr>, \<lparr>file_id = ''medium''\<rparr>, \<lparr>file_id = ''large''\<rparr>],
         video = Some \<lparr>file_id = ''clip''\<rparr>\<rparr>\<rparr>"

text \<open>The same message after the user edited its caption.\<close>

definition example_edited_update :: "int \<Rightarrow> update" where
  "example_edited_update c = (example_update c)\<lparr>kind := EditedMessage\<rparr>"

definition example_store :: "string store" where
  "example_store =
     \<lparr>module_vars = example_config, chat_data = (\<lambda>_. ''{}''), user_data = (\<lambda>_. ''{}''),
      issued = []\<rparr>"

definition example_failure :: "string \<Rightarrow> failure_event" where
  "example_failure t =
     \<lparr>failed_update_dump = ''{}'', failed_chat = Some 42, failed_user = Some 42,
      failed_tb = [t]\<rparr>"

definition example_report :: report where
  "example_report =
     \<lparr>update_dump = ''{}'', chat_data_str = ''{}'', user_data_str = ''{}'',
      tb_list = [''ValueError: '', ''<script>'']\<rparr>"

section \<open>Properties\<close>

subsection \<open>Sequencing and the guard\<close>

lemma and_then_raise [simp]: "and_then (raise e) f = raise e"
  by (simp add: and_then_def raise_def)

lemma and_then_return [simp]: "and_then (return_ok x) f = f x"
  by (simp add: and_then_def return_ok_def split: prod.splits)

lemma and_then_Inl [simp]: "and_then (es, Inl e) f = (es, Inl e)"
  by (simp add: and_then_def)

lemma and_then_Inr [simp]: "and_then (es, Inr x) f = (es @ fst (f x), snd (f x))"
  by (simp add: and_then_def split: prod.splits)

lemma check_user_cases:
  "check_user cfg u =
     (case authorized_identity cfg of
        None \<Rightarrow> raise (if DEVELOPER_CHAT_ID cfg = None then TypeError else ValueError)
      | Some a \<Rightarrow> if chat_id u = a then return_ok () else raise Unauthorized)"
  by (simp add: check_user_def authorized_identity_def split: option.splits)

lemma example_identity: "authorized_identity example_config = Some 42"
  by (simp add: authorized_identity_def example_config_def py_int_def strip_def is_space_def
      unsigned_def digit_of_def)

lemma example_modelled: "modelled_config example_config"
  by (simp add: modelled_config_def example_config_def in_scope_def is_ascii_def)

text \<open>
  C7. With an identity configured (a value in the scope of \<open>py_int\<close> that \<^verbatim>\<open>int\<close> reads as
  \<open>a\<close>), \<^verbatim>\<open>check_user\<close> raises the Unauthorized error exactly when the chat id of the update
  differs from \<open>a\<close>, returns normally when they are equal, and issues no call in either
  case.
\<close>

theorem check_user_iff:
  assumes "modelled_config cfg" and "authorized_identity cfg = Some a"
  shows "check_user cfg u = ([], if chat_id u = a then Inr () else Inl Unauthorized) \<and>
         (snd (check_user cfg u) = Inl Unauthorized) = (chat_id u \<noteq> a)"
  using assms by (simp add: check_user_cases return_ok_def raise_def)

theorem check_user_iff_witness:
  "check_user example_config (example_update 7) = ([], Inl Unauthorized) \<and>
   check_user example_config (example_update 42) = ([], Inr ())"
  using check_user_iff [OF example_modelled example_identity, of "example_update 7"]
    check_user_iff [OF example_modelled example_identity, of "example_update 42"]
  by (simp add: example_update_def chat_id_def)

subsection \<open>The handlers and the guard\<close>

text \<open>
  C1, as stated, fails: \<^verbatim>\<open>bad_command\<close> does not call \<^verbatim>\<open>check_user\<close>, so a caller from
  chat 7, with 42 the configured identity, is not answered with Unauthorized.
\<close>

theorem bad_command_skips_guard_counterexample:
  "authorized_identity example_config = Some 42 \<and> chat_id (example_update 7) \<noteq> 42 \<and>
   snd (bad_command example_config example_transport (example_update 7)) \<noteq> Inl Unauthorized"
  by (simp add: example_identity example_update_def chat_id_def bad_command_def raise_def)

text \<open>
  C1, amended. Every invocation of the \<^verbatim>\<open>/bad_command\<close> handler ends with IntentionalFault
  and issues no call, whoever the caller is and whatever the configuration: the guard is
  not run.
\<close>

theorem bad_command_always_faults:
  "bad_command cfg w u = ([], Inl IntentionalFault)"
  by (simp add: bad_command_def raise_def)

text \<open>
  C2, as stated, fails for the \<^verbatim>\<open>/bad_command\<close> handler: for a caller other than the
  configured identity it ends with IntentionalFault, which is not Unauthorized.
\<close>

theorem unauthorized_handler_counterexample:
  "authorized_identity example_config = Some 42 \<and> chat_id (example_update 7) \<noteq> 42 \<and>
   handler BadCommand example_config example_transport (example_update 7) =
     ([], Inl IntentionalFault) \<and>
   IntentionalFault \<noteq> Unauthorized"
  by (simp add: example_identity example_update_def chat_id_def bad_command_def raise_def)

text \<open>
  C2, amended. For a caller whose chat id differs from the configured identity (a value in
  the scope of \<open>py_int\<close>), the
  \<^verbatim>\<open>/start\<close>, photo and video handlers raise Unauthorized and the \<^verbatim>\<open>/bad_command\<close> handler
  raises IntentionalFault; none of the four issues any call before that (no download, no
  reply).
\<close>

theorem unauthorized_no_action:
  assumes "modelled_config cfg" and "authorized_identity cfg = Some a" and "chat_id u \<noteq> a"
  shows "handler ev cfg w u =
           ([], Inl (if ev = BadCommand then IntentionalFault else Unauthorized))"
  using assms
  by (cases ev) (simp_all add: start_def image_def video_handler_def bad_command_def
      check_user_cases raise_def)

theorem unauthorized_no_action_witness:
  "handler StartCommand example_config example_transport (example_update 7) =
     ([], Inl Unauthorized) \<and>
   handler PhotoMessage example_config example_transport (example_update 7) =
     ([], Inl Unauthorized) \<and>
   handler VideoMessage example_config example_transport (example_update 7) =
     ([], Inl Unauthorized) \<and>
   handler BadCommand example_config example_transport (example_update 7) =
     ([], Inl IntentionalFault)"
proof -
  have ne: "chat_id (example_update 7) \<noteq> 42"
    by (simp add: example_update_def chat_id_def)
  note t = unauthorized_no_action [OF example_modelled example_identity ne]
  show ?thesis
    using t [of StartCommand example_transport] t [of PhotoMessage example_transport]
      t [of VideoMessage example_transport] t [of BadCommand example_transport]
    by simp
qed

text \<open>
  C10. The identity is parsed from the configured string at every guard check. When the
  variable is unset, or its value (in the scope of \<open>py_int\<close>) is not an integer literal,
  every guarded handler (the \<^verbatim>\<open>/start\<close>, photo and video handlers) and the guard itself,
  for every caller, end with the conversion error of \<^verbatim>\<open>int\<close> (\<^verbatim>\<open>TypeError\<close> when unset,
  \<^verbatim>\<open>ValueError\<close> when malformed) before issuing any call: never with Unauthorized, and
  never normally.
\<close>

theorem unparsable_identity_fails:
  assumes "modelled_config cfg" and "authorized_identity cfg = None" and "ev \<noteq> BadCommand"
  shows "\<exists>e. e = (if DEVELOPER_CHAT_ID cfg = None then TypeError else ValueError) \<and>
             is_conversion_error e \<and> e \<noteq> Unauthorized \<and>
             handler ev cfg w u = ([], Inl e) \<and> check_user cfg u = ([], Inl e)"
  using assms
  by (cases ev) (simp_all add: start_def image_def video_handler_def
      check_user_cases raise_def is_conversion_error_def)

theorem unparsable_identity_fails_witness:
  "handler StartCommand \<lparr>DEVELOPER_CHAT_ID = None, BOT_TOKEN = None\<rparr> example_transport
     (example_update 42) = ([], Inl TypeError) \<and>
   handler PhotoMessage \<lparr>DEVELOPER_CHAT_ID = Some [CHR 0x1F, CHR ''4'', CHR ''2''], BOT_TOKEN = None\<rparr>
     example_transport (example_update 42) = ([], Inl ValueError) \<and>
   handler VideoMessage \<lparr>DEVELOPER_CHAT_ID = Some ''4 2'', BOT_TOKEN = None\<rparr>
     example_transport (example_update 42) = ([], Inl ValueError)"
proof -
  let ?unset = "\<lparr>DEVELOPER_CHAT_ID = None, BOT_TOKEN = None\<rparr>"
  let ?separator = "\<lparr>DEVELOPER_CHAT_ID = Some [CHR 0x1F, CHR ''4'', CHR ''2''], BOT_TOKEN = None\<rparr>"
  let ?blank = "\<lparr>DEVELOPER_CHAT_ID = Some ''4 2'', BOT_TOKEN = None\<rparr>"
  have m: "modelled_config ?unset" "modelled_config ?separator" "modelled_config ?blank"
    by (simp_all add: modelled_config_def in_scope_def is_ascii_def)
  have n: "authorized_identity ?unset = None" "authorized_identity ?separator = None"
    "authorized_identity ?blank = None"
    by (simp_all add: authorized_identity_def py_int_def strip_def is_space_def unsigned_def
        digit_of_def)
  have k: "StartCommand \<noteq> BadCommand" "PhotoMessage \<noteq> BadCommand" "VideoMessage \<noteq> BadCommand"
    by simp_all
  show ?thesis
    using unparsable_identity_fails [OF m(1) n(1) k(1), of example_transport "example_update 42"]
      unparsable_identity_fails [OF m(2) n(2) k(2), of example_transport "example_update 42"]
      unparsable_identity_fails [OF m(3) n(3) k(3), of example_transport "example_update 42"]
    by simp
qed

subsection \<open>Splitting a path\<close>

lemma get_file_calls_append:
  "get_file_calls (xs @ ys) = get_file_calls xs @ get_file_calls ys"
  by (induction xs rule: get_file_calls.induct) simp_all

lemma split_on_not_Nil: "split_on c s \<noteq> []"
  by (induction s) (simp_all split: list.splits)

lemma split_on_no_separator: "c \<notin> set s \<Longrightarrow> split_on c s = [s]"
  by (induction s) auto

lemma split_on_separator: "c \<in> set s \<Longrightarrow> tl (split_on c s) \<noteq> []"
  by (induction s) (auto simp: split_on_not_Nil split: list.splits)

lemma final_segment_Cons:
  "final_segment (x # xs) =
     (if CHR ''/'' \<in> set xs then final_segment xs
      else if x = CHR ''/'' then xs else x # xs)"
proof (cases "CHR ''/'' \<in> set xs")
  case True
  then show ?thesis
    by (simp add: final_segment_def takeWhile_append1 [where x = "CHR ''/''"])
next
  case False
  then have all: "\<And>c. c \<in> set (rev xs) \<Longrightarrow> c \<noteq> CHR ''/''"
    by auto
  have "takeWhile (\<lambda>c. c \<noteq> CHR ''/'') (rev xs @ [x]) =
          rev xs @ takeWhile (\<lambda>c. c \<noteq> CHR ''/'') [x]"
    by (rule takeWhile_append2) (use all in blast)
  with False show ?thesis
    by (simp add: final_segment_def)
qed

lemma last_split_on: "last (split_on CHR ''/'' p) = final_segment p"
proof (induction p)
  case Nil
  show ?case by (simp add: final_segment_def)
next
  case (Cons x xs)
  show ?case
  proof (cases "CHR ''/'' \<in> set xs")
    case True
    from split_on_separator [OF True] obtain q r rs where "split_on CHR ''/'' xs = q # r # rs"
      by (cases "split_on CHR ''/'' xs"; cases "tl (split_on CHR ''/'' xs)") auto
    with Cons True show ?thesis
      by (simp add: final_segment_Cons)
  next
    case False
    then show ?thesis
      by (simp add: final_segment_Cons split_on_no_separator)
  qed
qed

lemma py_last_split_on: "py_last (split_on CHR ''/'' p) = return_ok (final_segment p)"
  using split_on_not_Nil [of "CHR ''/''" p] last_split_on [of p]
  by (cases "split_on CHR ''/'' p") (simp_all add: py_last_def)

lemma final_segment_has_no_slash: "CHR ''/'' \<notin> set (final_segment p)"
  using set_takeWhileD [of "CHR ''/''" "\<lambda>c. c \<noteq> CHR ''/''" "rev p"]
  by (auto simp: final_segment_def)

lemma final_segment_suffix:
  "\<exists>dir. p = dir @ final_segment p \<and> (dir = [] \<or> last dir = CHR ''/'')"
proof -
  let ?P = "\<lambda>c. c \<noteq> CHR ''/''"
  have "p = rev (dropWhile ?P (rev p)) @ final_segment p"
    by (simp add: final_segment_def flip: rev_append)
  moreover have "dropWhile ?P (rev p) \<noteq> [] \<Longrightarrow> hd (dropWhile ?P (rev p)) = CHR ''/''"
    using hd_dropWhile [of ?P "rev p"] by simp
  then have "rev (dropWhile ?P (rev p)) = [] \<or> last (rev (dropWhile ?P (rev p))) = CHR ''/''"
    by (auto simp: last_rev)
  ultimately show ?thesis by blast
qed

lemma download_file_found:
  assumes "get_file w fid = Inr f" and "file_path f = Some p"
  shows "fst (download_file w fid) = [GetFile fid, DownloadToDrive f (''/files/'' @ final_segment p)]"
  using assms
  by (simp add: download_file_def bot_get_file_def py_last_split_on return_ok_def call_def)

lemma get_file_calls_download_file: "get_file_calls (fst (download_file w fid)) = [fid]"
  by (cases "get_file w fid")
    (auto simp: download_file_def bot_get_file_def py_last_split_on return_ok_def raise_def call_def
      split: option.splits)

lemma get_file_calls_reply [simp]: "get_file_calls (fst (reply_html w u t)) = []"
  by (simp add: reply_html_def call_def)

subsection \<open>The photo handler and the downloader\<close>

text \<open>
  What the photo handler asks the platform for, the configured value being in the scope of
  \<open>py_int\<close>: the file of the last size variant when the guard passes, the update is a new
  message and it has a size variant; nothing otherwise.
\<close>

lemma image_get_file_calls:
  assumes "modelled_config cfg"
  shows "get_file_calls (fst (image cfg w u)) =
     (if authorized_identity cfg = Some (chat_id u) \<and> kind u = NewMessage \<and>
         photo (effective_message u) \<noteq> []
      then [file_id (last (photo (effective_message u)))] else [])"
proof (cases "authorized_identity cfg = Some (chat_id u)")
  case False
  then show ?thesis
    by (simp add: image_def check_user_cases raise_def split: option.splits)
next
  case True
  show ?thesis
  proof (cases "kind u = NewMessage \<and> photo (effective_message u) \<noteq> []")
    case False
    with True show ?thesis
      by (auto simp: image_def check_user_cases message_def py_last_def raise_def
          split: list.splits)
  next
    case yes: True
    let ?fid = "file_id (last (photo (effective_message u)))"
    from yes have pl: "py_last (photo (effective_message u)) =
        return_ok (last (photo (effective_message u)))"
      by (simp add: py_last_def split: list.splits)
    obtain es r where d: "download_file w ?fid = (es, r)"
      by (cases "download_file w ?fid")
    have "get_file_calls es = [?fid]"
      using get_file_calls_download_file [of w ?fid] d by simp
    with True yes pl d show ?thesis
      by (cases r) (simp_all add: image_def check_user_cases message_def get_file_calls_append)
  qed
qed

text \<open>
  C3 does not hold of the code. A photo message whose caption was edited reaches the photo
  handler with its size variants, but \<^verbatim>\<open>update.message\<close> is \<^verbatim>\<open>None\<close> for it: for the
  authorized caller the handler ends with \<^verbatim>\<open>AttributeError\<close> and asks for no file, where
  the same message as a new one has the last variant downloaded.
\<close>

theorem image_edited_message_fails:
  "authorized_identity example_config = Some (chat_id (example_edited_update 42)) \<and>
   map file_id (photo (effective_message (example_edited_update 42))) =
     [''small'', ''medium'', ''large''] \<and>
   image example_config example_transport (example_edited_update 42) =
     ([], Inl (AttributeError ''photo'')) \<and>
   get_file_calls (fst (image example_config example_transport (example_update 42))) =
     [''large'']"
proof -
  have e: "kind (example_edited_update 42) = EditedMessage"
    "chat_id (example_edited_update 42) = 42"
    "map file_id (photo (effective_message (example_edited_update 42))) =
       [''small'', ''medium'', ''large'']"
    by (simp_all add: example_edited_update_def example_update_def chat_id_def)
  have n: "kind (example_update 42) = NewMessage" "chat_id (example_update 42) = 42"
    "photo (effective_message (example_update 42)) \<noteq> []"
    "file_id (last (photo (effective_message (example_update 42)))) = ''large''"
    by (simp_all add: example_update_def chat_id_def)
  have "image example_config example_transport (example_edited_update 42) =
      ([], Inl (AttributeError ''photo''))"
    by (simp add: image_def check_user_cases example_identity e message_def raise_def)
  moreover have "get_file_calls (fst (image example_config example_transport (example_update 42))) =
      [''large'']"
    by (simp add: image_get_file_calls [OF example_modelled] example_identity n)
  ultimately show ?thesis
    by (simp add: example_identity e)
qed

text \<open>
  C4. When the platform resolves a file id to a file with remote path \<open>p\<close>,
  \<^verbatim>\<open>download_file\<close> asks for that file and stores it under \<^verbatim>\<open>/files/\<close> followed by the final
  segment of \<open>p\<close>: the part of \<open>p\<close> after its last slash, which contains no slash itself.
\<close>

theorem download_file_final_segment:
  assumes "get_file w fid = Inr f" and "file_path f = Some p"
  shows "fst (download_file w fid) =
           [GetFile fid, DownloadToDrive f (''/files/'' @ final_segment p)] \<and>
         CHR ''/'' \<notin> set (final_segment p) \<and>
         (\<exists>dir. p = dir @ final_segment p \<and> (dir = [] \<or> last dir = CHR ''/''))"
  using download_file_found [OF assms] final_segment_has_no_slash [of p] final_segment_suffix [of p]
  by simp

theorem download_file_final_segment_witness:
  "fst (download_file example_transport ''image123'') =
     [GetFile ''image123'',
      DownloadToDrive \<lparr>tg_file_id = ''image123'', file_path = Some ''abc/def/image123.jpg''\<rparr>
        ''/files/image123.jpg'']"
proof -
  have g: "get_file example_transport ''image123'' =
             Inr \<lparr>tg_file_id = ''image123'', file_path = Some ''abc/def/image123.jpg''\<rparr>"
    by (simp add: example_transport_def)
  have p: "file_path \<lparr>tg_file_id = ''image123'', file_path = Some ''abc/def/image123.jpg''\<rparr> =
             Some ''abc/def/image123.jpg''"
    by simp
  have "final_segment ''abc/def/image123.jpg'' = ''image123.jpg''"
    by (simp add: final_segment_def)
  with download_file_final_segment [OF g p] show ?thesis
    by simp
qed

subsection \<open>Substrings\<close>

lemma starts_with_append: "starts_with s (s @ t)"
  by (induction s) simp_all

lemma starts_with_iff: "starts_with s t \<longleftrightarrow> (\<exists>b. t = s @ b)"
  by (induction s t rule: starts_with.induct) auto

lemma py_in_here: "py_in s (s @ b)"
  by (cases "s @ b") (use starts_with_append [of s b] in auto)

lemma py_in_append: "py_in s (a @ s @ b)"
  by (induction a) (simp_all add: py_in_here)

lemma py_in_iff: "py_in s t \<longleftrightarrow> (\<exists>a b. t = a @ s @ b)"
proof
  show "py_in s t \<Longrightarrow> \<exists>a b. t = a @ s @ b"
  proof (induction t)
    case Nil
    then show ?case by simp
  next
    case (Cons x xs)
    then consider "starts_with s (x # xs)" | "py_in s xs"
      by auto
    then show ?case
    proof cases
      case 1
      then obtain b where "x # xs = [] @ s @ b"
        by (auto simp: starts_with_iff)
      then show ?thesis by blast
    next
      case 2
      with Cons.IH obtain a b where "xs = a @ s @ b"
        by blast
      then have "x # xs = (x # a) @ s @ b"
        by simp
      then show ?thesis by blast
    qed
  qed
next
  show "\<exists>a b. t = a @ s @ b \<Longrightarrow> py_in s t"
    by (auto simp: py_in_append)
qed

subsection \<open>Decimal strings\<close>

text \<open>\<^verbatim>\<open>int\<close> reads back what \<^verbatim>\<open>str\<close> writes.\<close>

lemma digit_of_digit_char: "d < 10 \<Longrightarrow> digit_of (digit_char d) = Some d"
proof -
  assume "d < 10"
  then have "d \<in> {0, 1, 2, 3, 4, 5, 6, 7, 8, 9}"
    by auto
  then show ?thesis
    by (auto simp: digit_of_def digit_char_def)
qed

lemma digit_char_in: "digit_char d \<in> set ''0123456789''"
proof -
  have "d mod 10 \<in> {0, 1, 2, 3, 4, 5, 6, 7, 8, 9}"
    using mod_less_divisor [of 10 d] by (auto simp del: mod_less_divisor)
  then show ?thesis
    unfolding digit_char_def by (auto simp del: set_simps)
qed

lemma str_nat_digits: "set (str_nat n) \<subseteq> set ''0123456789''"
proof -
  define D where "D = set ''0123456789''"
  have "set (str_nat n) \<subseteq> D"
  proof (induction n rule: str_nat.induct)
    case (1 n)
    then show ?case
      using digit_char_in [of n] digit_char_in [of "n mod 10"]
      unfolding D_def [symmetric]
      by (subst str_nat.simps) auto
  qed
  then show ?thesis
    by (simp only: D_def)
qed

lemma str_nat_not_Nil: "str_nat n \<noteq> []"
  by (subst str_nat.simps) simp

lemma more_digits_snoc:
  "CHR ''_'' \<notin> set xs \<Longrightarrow> c \<noteq> CHR ''_'' \<Longrightarrow>
   more_digits acc (xs @ [c]) =
     (case more_digits acc xs of
        None \<Rightarrow> None
      | Some v \<Rightarrow> (case digit_of c of None \<Rightarrow> None | Some d \<Rightarrow> Some (v * 10 + d)))"
  by (induction acc xs rule: more_digits.induct) (auto split: option.splits)

lemma more_digits_str_nat: "more_digits 0 (str_nat n) = Some n"
proof (induction n rule: str_nat.induct)
  case (1 n)
  show ?case
  proof (cases "n < 10")
    case True
    then show ?thesis
      by (subst str_nat.simps) (simp add: digit_of_digit_char)
  next
    case False
    have u: "CHR ''_'' \<notin> set (str_nat (n div 10))"
      using str_nat_digits [of "n div 10"] by auto
    have c: "digit_char (n mod 10) \<noteq> CHR ''_''"
      using digit_char_in [of "n mod 10"] by auto
    from False 1 have "more_digits 0 (str_nat (n div 10)) = Some (n div 10)"
      by simp
    with False show ?thesis
      by (subst str_nat.simps) (simp add: more_digits_snoc [OF u c] digit_of_digit_char)
  qed
qed

lemma unsigned_more_digits: "s \<noteq> [] \<Longrightarrow> hd s \<noteq> CHR ''_'' \<Longrightarrow> unsigned s = more_digits 0 s"
proof -
  assume "s \<noteq> []" and h: "hd s \<noteq> CHR ''_''"
  then obtain c cs where s: "s = c # cs"
    by (cases s) auto
  with h show ?thesis
    by (cases cs) (auto simp: unsigned_def split: option.splits)
qed

lemma unsigned_str_nat: "unsigned (str_nat n) = Some n"
proof -
  have "hd (str_nat n) \<in> set ''0123456789''"
    using str_nat_digits [of n] str_nat_not_Nil [of n] hd_in_set by blast
  then have "hd (str_nat n) \<noteq> CHR ''_''"
    by auto
  then show ?thesis
    by (simp add: unsigned_more_digits str_nat_not_Nil more_digits_str_nat)
qed

lemma strip_id: "s \<noteq> [] \<Longrightarrow> \<not> is_space (hd s) \<Longrightarrow> \<not> is_space (last s) \<Longrightarrow> strip s = s"
proof -
  assume s: "s \<noteq> []" and h: "\<not> is_space (hd s)" and l: "\<not> is_space (last s)"
  from s h have "dropWhile is_space s = s"
    by (cases s) simp_all
  moreover from s l have "dropWhile is_space (rev s) = rev s"
    by (cases "rev s") (simp_all add: hd_rev)
  ultimately show ?thesis
    by (simp add: strip_def)
qed

lemma digit_not_space: "c \<in> set ''0123456789'' \<Longrightarrow> \<not> is_space c"
  by (auto simp: is_space_def)

lemma py_int_py_str: "py_int (py_str i) = Some i"
proof -
  let ?d = "str_nat (nat \<bar>i\<bar>)"
  have ne: "?d \<noteq> []"
    by (rule str_nat_not_Nil)
  have hd: "hd ?d \<in> set ''0123456789''" and last: "last ?d \<in> set ''0123456789''"
    using str_nat_digits [of "nat \<bar>i\<bar>"] ne hd_in_set last_in_set by blast+
  show ?thesis
  proof (cases "i < 0")
    case True
    have "strip (CHR ''-'' # ?d) = CHR ''-'' # ?d"
      using ne last by (intro strip_id) (simp_all add: digit_not_space, simp add: is_space_def)
    with True show ?thesis
      by (simp add: py_str_def py_int_def unsigned_str_nat abs_if)
  next
    case False
    have "strip ?d = ?d"
      using ne hd last by (intro strip_id) (simp_all add: digit_not_space)
    moreover obtain c cs where cs: "?d = c # cs"
      using ne by (cases ?d) auto
    moreover from hd cs have "c \<noteq> CHR ''-''" "c \<noteq> CHR ''+''"
      by auto
    moreover have "unsigned ?d = Some (nat \<bar>i\<bar>)"
      by (rule unsigned_str_nat)
    ultimately show ?thesis
      using False by (simp add: py_str_def py_int_def abs_if)
  qed
qed

text \<open>
  C8. When the caller's chat id is the configured identity (a value in the scope of
  \<open>py_int\<close>), the \<^verbatim>\<open>/start\<close> handler sends
  one reply, to that chat, and its text contains the decimal string of the chat id: the
  string that \<^verbatim>\<open>int\<close> reads back as that id.
\<close>

theorem start_replies_chat_id:
  assumes "modelled_config cfg" and "authorized_identity cfg = Some (chat_id u)"
  shows "fst (start cfg w u) = [ReplyHtml (chat_id u) (usage_text u)] \<and>
         py_in (py_str (chat_id u)) (usage_text u) \<and>
         py_int (py_str (chat_id u)) = Some (chat_id u)"
proof -
  have "usage_text u =
          (''Use /bad_command to cause an error.'' @ [CHR 0x0A] @ ''Your chat id is <code>'') @
          py_str (chat_id u) @ ''</code>.''"
    by (simp add: usage_text_def)
  then have "py_in (py_str (chat_id u)) (usage_text u)"
    using py_in_append by metis
  with assms show ?thesis
    by (simp add: start_def check_user_cases reply_html_def call_def py_int_py_str)
qed

theorem start_replies_chat_id_witness:
  "fst (start example_config example_transport (example_update 42)) =
     [ReplyHtml 42 (''Use /bad_command to cause an error.'' @ [CHR 0x0A] @
        ''Your chat id is <code>42</code>.'')] \<and>
   py_str 42 = ''42''"
proof -
  have c: "chat_id (example_update 42) = 42"
    by (simp add: example_update_def chat_id_def)
  have a: "authorized_identity example_config = Some (chat_id (example_update 42))"
    by (simp add: example_identity c)
  have s: "py_str 42 = ''42''"
    by (simp add: py_str_def digit_char_def str_nat.simps)
  show ?thesis
    using start_replies_chat_id [OF example_modelled a, THEN conjunct1, of example_transport] s
    by (simp add: usage_text_def c)
qed

subsection \<open>Escaping and the error report\<close>

lemma py_replace_append: "py_replace c r (a @ b) = py_replace c r a @ py_replace c r b"
  by (induction a) simp_all

lemma html_escape_append: "html_escape (a @ b) = html_escape a @ html_escape b"
  by (simp add: html_escape_def py_replace_append)

lemma html_escape_Nil [simp]: "html_escape [] = []"
  by (simp add: html_escape_def)

lemma html_escape_single:
  "html_escape [x] =
     (if x = CHR ''&'' then ''&amp;'' else if x = CHR ''<'' then ''&lt;''
      else if x = CHR ''>'' then ''&gt;'' else if x = CHR 0x22 then ''&quot;''
      else if x = CHR 0x27 then ''&#x27;'' else [x])"
  by (simp add: html_escape_def)

lemma html_escape_Cons: "html_escape (x # xs) = html_escape [x] @ html_escape xs"
  using html_escape_append [of "[x]" xs] by simp

lemma html_escape_no_angle: "\<not> is_angle c \<or> c \<notin> set (html_escape s)"
proof (induction s)
  case Nil
  show ?case by simp
next
  case (Cons x xs)
  then show ?case
    by (subst html_escape_Cons) (auto simp: html_escape_single is_angle_def)
qed

lemma filter_angle_escape [simp]: "filter is_angle (html_escape s) = []"
  using html_escape_no_angle [of _ s] by (auto simp: filter_empty_conv)

lemma lt_not_in_escape [simp]: "CHR ''<'' \<notin> set (html_escape s)"
  using html_escape_no_angle [of "CHR ''<''" s] by (simp add: is_angle_def)

lemma py_in_skip: "a \<notin> set xs \<Longrightarrow> py_in (a # bs) (xs @ ys) = py_in (a # bs) ys"
  by (induction xs) auto

lemma py_in_skip_escape [simp]:
  "py_in (CHR ''<'' # bs) (html_escape s @ ys) = py_in (CHR ''<'' # bs) ys"
  by (rule py_in_skip) simp

lemma py_in_escape: "py_in s c \<Longrightarrow> py_in (html_escape s) (html_escape c)"
proof -
  assume "py_in s c"
  then obtain a b where "c = a @ s @ b"
    by (auto simp: py_in_iff)
  then have "html_escape c = html_escape a @ html_escape s @ html_escape b"
    by (simp add: html_escape_append)
  then show ?thesis
    by (metis py_in_append)
qed

lemma py_in_context: "py_in s t \<Longrightarrow> py_in s (a @ t @ b)"
proof -
  assume "py_in s t"
  then obtain p q where "t = p @ s @ q"
    by (auto simp: py_in_iff)
  then have "a @ t @ b = (a @ p) @ s @ (q @ b)"
    by simp
  then show ?thesis
    by (metis py_in_append)
qed

lemma error_handler_trace:
  "fst (error_handler cfg w r) =
     [LogError ''Exception while handling an update:'' (tb_list r),
      SendMessage (DEVELOPER_CHAT_ID cfg) (error_message r) HTML]"
  by (simp add: error_handler_def logger_error_def call_def)

lemma no_script_in_message: "\<not> py_in ''<script>'' (error_message r)"
  by (simp add: error_message_def)

lemma angles_of_message: "filter is_angle (error_message r) = ''<><><><><><><><>''"
  by (simp add: error_message_def is_angle_def)

lemma escaped_component_in_message:
  assumes "c \<in> {update_dump r, chat_data_str r, user_data_str r, tb_string r}"
  shows "\<exists>a b. error_message r = a @ html_escape c @ b"
proof -
  from assms consider "c = update_dump r" | "c = chat_data_str r" | "c = user_data_str r"
    | "c = tb_string r"
    by auto
  then show ?thesis
  proof cases
    case 1
    show ?thesis unfolding 1 error_message_def
      by (rule exI [of _ "''An exception was raised while handling an update'' @ [CHR 0x0A] @
        ''<pre>update = ''"], rule exI) simp
  next
    case 2
    show ?thesis unfolding 2 error_message_def
      by (rule exI [of _ "''An exception was raised while handling an update'' @ [CHR 0x0A] @
        ''<pre>update = '' @ html_escape (update_dump r) @
        ''</pre>'' @ [CHR 0x0A, CHR 0x0A] @ ''<pre>context.chat_data = ''"], rule exI) simp
  next
    case 3
    show ?thesis unfolding 3 error_message_def
      by (rule exI [of _ "''An exception was raised while handling an update'' @ [CHR 0x0A] @
        ''<pre>update = '' @ html_escape (update_dump r) @
        ''</pre>'' @ [CHR 0x0A, CHR 0x0A] @
        ''<pre>context.chat_data = '' @ html_escape (chat_data_str r) @ ''</pre>'' @
        [CHR 0x0A, CHR 0x0A] @ ''<pre>context.user_data = ''"], rule exI) simp
  next
    case 4
    show ?thesis unfolding 4 error_message_def
      by (rule exI [of _ "''An exception was raised while handling an update'' @ [CHR 0x0A] @
        ''<pre>update = '' @ html_escape (update_dump r) @
        ''</pre>'' @ [CHR 0x0A, CHR 0x0A] @
        ''<pre>context.chat_data = '' @ html_escape (chat_data_str r) @ ''</pre>'' @
        [CHR 0x0A, CHR 0x0A] @
        ''<pre>context.user_data = '' @ html_escape (user_data_str r) @ ''</pre>'' @
        [CHR 0x0A, CHR 0x0A] @ ''<pre>''"], rule exI) simp
  qed
qed

text \<open>
  C5. Each of the four components of the report (serialized update, chat data, user data,
  stack trace) is embedded escaped: whatever text \<open>s\<close> occurs in a component, the message
  sent contains the escaped form of \<open>s\<close>, and the escaped form of \<^verbatim>\<open><script>\<close> is
  \<^verbatim>\<open>&lt;script&gt;\<close>. The message never contains \<^verbatim>\<open><script>\<close>, and its only angle brackets
  are those of the eight tags of the template.
\<close>

theorem error_message_escaped:
  assumes "py_in s c"
    and "c \<in> {update_dump r, chat_data_str r, user_data_str r, tb_string r}"
  shows "messages (fst (error_handler cfg w r)) =
           [SendMessage (DEVELOPER_CHAT_ID cfg) (error_message r) HTML] \<and>
         py_in (html_escape s) (error_message r) \<and>
         html_escape ''<script>'' = ''&lt;script&gt;'' \<and>
         \<not> py_in ''<script>'' (error_message r) \<and>
         filter is_angle (error_message r) = ''<><><><><><><><>''"
proof -
  from escaped_component_in_message [OF assms(2)] obtain a b
    where "error_message r = a @ html_escape c @ b"
    by blast
  with py_in_escape [OF assms(1)] have "py_in (html_escape s) (error_message r)"
    by (simp add: py_in_context)
  moreover have "html_escape ''<script>'' = ''&lt;script&gt;''"
    by (simp add: html_escape_def)
  ultimately show ?thesis
    by (simp add: error_handler_trace no_script_in_message angles_of_message)
qed

theorem error_message_escaped_witness:
  "py_in ''<script>'' (tb_string example_report) \<and>
   py_in ''&lt;script&gt;'' (error_message example_report) \<and>
   \<not> py_in ''<script>'' (error_message example_report)"
proof -
  have h: "py_in ''<script>'' (tb_string example_report)"
    by (simp add: tb_string_def example_report_def)
  have m: "tb_string example_report \<in> {update_dump example_report,
      chat_data_str example_report, user_data_str example_report, tb_string example_report}"
    by simp
  note t = error_message_escaped [OF h m, where cfg = example_config and w = example_transport]
  from t have e: "html_escape ''<script>'' = ''&lt;script&gt;''"
    by (elim conjE)
  from t have "py_in (html_escape ''<script>'') (error_message example_report)"
    by (elim conjE)
  then have "py_in ''&lt;script&gt;'' (error_message example_report)"
    by (simp only: e)
  moreover from t have "\<not> py_in ''<script>'' (error_message example_report)"
    by (elim conjE)
  ultimately show ?thesis
    using h by (intro conjI)
qed

lemma error_message_sections:
  "error_message r =
     ''An exception was raised while handling an update'' @ [CHR 0x0A] @
     pre_block (''update = '' @ html_escape (update_dump r)) @ [CHR 0x0A, CHR 0x0A] @
     pre_block (''context.chat_data = '' @ html_escape (chat_data_str r)) @ [CHR 0x0A, CHR 0x0A] @
     pre_block (''context.user_data = '' @ html_escape (user_data_str r)) @ [CHR 0x0A, CHR 0x0A] @
     pre_block (html_escape (tb_string r))"
  by (simp add: error_message_def pre_block_def)

text \<open>
  C6. For every failure reported, the error handler sends exactly one chat message: to the
  configured chat id, whose integer value is the authorized identity, with HTML as the
  parse mode, and with a text that is the heading followed by the four sections (serialized
  update, chat data, user data, stack trace), each between \<^verbatim>\<open><pre>\<close> and \<^verbatim>\<open></pre>\<close>.
\<close>

theorem error_handler_one_message:
  assumes "authorized_identity cfg = Some a"
  shows "\<exists>s. DEVELOPER_CHAT_ID cfg = Some s \<and> py_int s = Some a \<and>
           messages (fst (error_handler cfg w r)) =
             [SendMessage (Some s)
                (''An exception was raised while handling an update'' @ [CHR 0x0A] @
                 pre_block (''update = '' @ html_escape (update_dump r)) @
                 [CHR 0x0A, CHR 0x0A] @
                 pre_block (''context.chat_data = '' @ html_escape (chat_data_str r)) @
                 [CHR 0x0A, CHR 0x0A] @
                 pre_block (''context.user_data = '' @ html_escape (user_data_str r)) @
                 [CHR 0x0A, CHR 0x0A] @
                 pre_block (html_escape (tb_string r)))
                HTML]"
proof -
  from assms obtain s where "DEVELOPER_CHAT_ID cfg = Some s" and "py_int s = Some a"
    by (auto simp: authorized_identity_def split: option.splits)
  then show ?thesis
    unfolding error_message_sections [symmetric]
    by (simp add: error_handler_trace)
qed

theorem error_handler_one_message_witness:
  "messages (fst (error_handler example_config example_transport example_report)) =
     [SendMessage (Some ''42'')
        (''An exception was raised while handling an update'' @ [CHR 0x0A] @
         ''<pre>update = {}</pre>'' @ [CHR 0x0A, CHR 0x0A] @
         ''<pre>context.chat_data = {}</pre>'' @ [CHR 0x0A, CHR 0x0A] @
         ''<pre>context.user_data = {}</pre>'' @ [CHR 0x0A, CHR 0x0A] @
         ''<pre>ValueError: &lt;script&gt;</pre>'')
        HTML]"
proof -
  from error_handler_one_message [OF example_identity, of example_transport example_report]
  obtain s where s: "DEVELOPER_CHAT_ID example_config = Some s"
    and m: "messages (fst (error_handler example_config example_transport example_report)) =
      [SendMessage (Some s)
         (''An exception was raised while handling an update'' @ [CHR 0x0A] @
          pre_block (''update = '' @ html_escape (update_dump example_report)) @
          [CHR 0x0A, CHR 0x0A] @
          pre_block (''context.chat_data = '' @ html_escape (chat_data_str example_report)) @
          [CHR 0x0A, CHR 0x0A] @
          pre_block (''context.user_data = '' @ html_escape (user_data_str example_report)) @
          [CHR 0x0A, CHR 0x0A] @
          pre_block (html_escape (tb_string example_report)))
         HTML]"
    by blast
  from s have "s = ''42''"
    by (simp add: example_config_def)
  with m show ?thesis
    by (simp add: pre_block_def example_report_def tb_string_def html_escape_def)
qed

subsection \<open>Two reports in a row\<close>

lemma error_handler_run_frame:
  "module_vars (fst (error_handler_run str_of w ev st)) = module_vars st \<and>
   chat_data (fst (error_handler_run str_of w ev st)) = chat_data st \<and>
   user_data (fst (error_handler_run str_of w ev st)) = user_data st"
  by (simp add: error_handler_run_def run_logger_error_def run_call_def Let_def)

lemma error_handler_run_issued:
  "issued (fst (error_handler_run str_of w ev st)) =
     issued st @
     [LogError ''Exception while handling an update:'' (failed_tb ev),
      SendMessage (DEVELOPER_CHAT_ID (module_vars st))
        (error_message
           \<lparr>update_dump = failed_update_dump ev,
            chat_data_str = context_data_str str_of (chat_data st) (failed_chat ev),
            user_data_str = context_data_str str_of (user_data st) (failed_user ev),
            tb_list = failed_tb ev\<rparr>)
        HTML]"
  by (simp add: error_handler_run_def run_logger_error_def run_call_def Let_def)

text \<open>
  C9. The error handler writes nothing that a later run reads. Run on the state that
  outlives it, it leaves the module variables and the chat and user data as they were and
  only adds its log entry and its message to what was issued. So when a second failure is
  reported after a first, what is issued for the second is its own log entry and its own
  message, built from the second failure and the data as they were before the first: the
  same calls as if the first failure had never been reported.
\<close>

theorem second_report_independent:
  assumes "sta = fst (error_handler_run str_of w eva st)"
    and "stb = fst (error_handler_run str_of w' evb sta)"
  shows "module_vars stb = module_vars st \<and> chat_data stb = chat_data st \<and>
         user_data stb = user_data st \<and>
         issued stb =
           issued sta @
           [LogError ''Exception while handling an update:'' (failed_tb evb),
            SendMessage (DEVELOPER_CHAT_ID (module_vars st))
              (error_message
                 \<lparr>update_dump = failed_update_dump evb,
                  chat_data_str = context_data_str str_of (chat_data st) (failed_chat evb),
                  user_data_str = context_data_str str_of (user_data st) (failed_user evb),
                  tb_list = failed_tb evb\<rparr>)
              HTML] \<and>
         drop (length (issued sta)) (issued stb) =
           drop (length (issued st)) (issued (fst (error_handler_run str_of w' evb st)))"
proof -
  have frame1: "module_vars sta = module_vars st" "chat_data sta = chat_data st"
    "user_data sta = user_data st"
    using error_handler_run_frame [of str_of w eva st] assms(1) by simp_all
  have frame2: "module_vars stb = module_vars sta" "chat_data stb = chat_data sta"
    "user_data stb = user_data sta"
    using error_handler_run_frame [of str_of w' evb sta] assms(2) by simp_all
  have second: "issued stb =
      issued sta @
      [LogError ''Exception while handling an update:'' (failed_tb evb),
       SendMessage (DEVELOPER_CHAT_ID (module_vars st))
         (error_message
            \<lparr>update_dump = failed_update_dump evb,
             chat_data_str = context_data_str str_of (chat_data st) (failed_chat evb),
             user_data_str = context_data_str str_of (user_data st) (failed_user evb),
             tb_list = failed_tb evb\<rparr>)
         HTML]"
    using error_handler_run_issued [of str_of w' evb sta] assms(2) frame1 by simp
  have alone: "drop (length (issued st)) (issued (fst (error_handler_run str_of w' evb st))) =
      drop (length (issued sta)) (issued stb)"
    unfolding second error_handler_run_issued [of str_of w' evb st] by simp
  from frame1 frame2 second alone show ?thesis
    by simp
qed

theorem second_report_independent_witness:
  "issued (fst (error_handler_run (\<lambda>d. d) example_transport (example_failure ''KeyError'')
     (fst (error_handler_run (\<lambda>d. d) example_transport (example_failure ''<script>'')
        example_store)))) =
   [LogError ''Exception while handling an update:'' [''<script>''],
    SendMessage (Some ''42'')
      (error_message \<lparr>update_dump = ''{}'', chat_data_str = ''{}'', user_data_str = ''{}'',
         tb_list = [''<script>'']\<rparr>) HTML,
    LogError ''Exception while handling an update:'' [''KeyError''],
    SendMessage (Some ''42'')
      (error_message \<lparr>update_dump = ''{}'', chat_data_str = ''{}'', user_data_str = ''{}'',
         tb_list = [''KeyError'']\<rparr>) HTML]"
proof -
  let ?first = "fst (error_handler_run (\<lambda>d. d) example_transport (example_failure ''<script>'')
    example_store)"
  have first: "issued ?first =
      [LogError ''Exception while handling an update:'' [''<script>''],
       SendMessage (Some ''42'')
         (error_message \<lparr>update_dump = ''{}'', chat_data_str = ''{}'', user_data_str = ''{}'',
            tb_list = [''<script>'']\<rparr>) HTML]"
    by (simp add: error_handler_run_issued example_store_def example_failure_def
        example_config_def context_data_str_def)
  note t = second_report_independent [OF refl refl, where str_of = "\<lambda>d. d"
      and w = example_transport and eva = "example_failure ''<script>''" and st = example_store
      and w' = example_transport and evb = "example_failure ''KeyError''"]
  have v: "DEVELOPER_CHAT_ID (module_vars example_store) = Some ''42''"
    "chat_data example_store = (\<lambda>_. ''{}'')" "user_data example_store = (\<lambda>_. ''{}'')"
    by (simp_all add: example_store_def example_config_def)
  have f: "failed_update_dump (example_failure ''KeyError'') = ''{}''"
    "failed_chat (example_failure ''KeyError'') = Some 42"
    "failed_user (example_failure ''KeyError'') = Some 42"
    "failed_tb (example_failure ''KeyError'') = [''KeyError'']"
    by (simp_all add: example_failure_def)
  show ?thesis
    using t [THEN conjunct2, THEN conjunct2, THEN conjunct2, THEN conjunct1]
    by (simp add: first v f context_data_str_def)
qed

end
